theory Spec2Isabelle
  imports Main "HOL-Library.Word"
begin

section \<open>The data model of \<open>runtime/runtime.h\<close>\<close>

text \<open>
  The file under verification is the header \<open>runtime/runtime.h\<close> of ART: the class
  \<open>art::Runtime\<close> with its data members and its inline member functions. Member
  functions that the header only declares (\<open>EndThreadBirth\<close>, \<open>Create\<close>,
  \<open>CreateCalleeSaveMethod\<close>, the root visitors) have their bodies in a translation unit
  that is not part of the sources at hand.

  Pointers are addresses; the null pointer is address \<open>0\<close>. The pointee classes
  (\<open>mirror::AbstractMethod\<close>, \<open>gc::Heap\<close>, ...) are only forward-declared in the header,
  so a pointer is all the model knows of them.
\<close>

type_synonym ptr = nat

definition NULL :: ptr where
  "NULL = 0"

text \<open>
  \<open>enum CalleeSaveType\<close> (runtime.h:307-312). The enumerators carry no initialiser, so
  C++ numbers them from zero in declaration order; \<open>CalleeSaveType_index\<close> is the integer
  an enumerator converts to when it subscripts an array.
\<close>

datatype CalleeSaveType = kSaveAll | kRefsOnly | kRefsAndArgs | kLastCalleeSaveType

fun CalleeSaveType_index :: "CalleeSaveType \<Rightarrow> nat" where
  "CalleeSaveType_index kSaveAll = 0"
| "CalleeSaveType_index kRefsOnly = 1"
| "CalleeSaveType_index kRefsAndArgs = 2"
| "CalleeSaveType_index kLastCalleeSaveType = 3"

text \<open>
  The data members of \<open>Runtime\<close> (runtime.h:383-474) that the inline member functions
  read or write. A member \<open>foo_\<close> of the class is the field \<open>foo\<close> of the record (an
  Isabelle field name cannot end in an underscore). \<open>size_t\<close> is a machine word whose
  width \<open>'w\<close> is left open, so every result holds for 32-bit and 64-bit builds alike.
  The array \<open>callee_save_methods_[kLastCalleeSaveType]\<close> is a list; \<open>Runtime_ok\<close> below
  records its declared length.
\<close>

record (overloaded) ('w::len) Runtime =
  is_compiler :: bool
  is_zygote :: bool
  is_concurrent_gc_enabled :: bool
  small_mode :: bool
  small_mode_method_threshold :: "'w word"
  small_mode_method_dex_size_limit :: "'w word"
  sea_ir_mode :: bool
  host_prefix :: string
  boot_class_path_string :: string
  class_path_string :: string
  properties :: "string list"
  default_stack_size :: "'w word"
  heap :: ptr
  monitor_list :: ptr
  thread_list :: ptr
  intern_table :: ptr
  class_linker :: ptr
  java_vm :: ptr
  pre_allocated_OutOfMemoryError :: ptr
  callee_save_methods :: "ptr list"
  resolution_method :: ptr
  threads_being_born :: "'w word"
  shutting_down :: bool
  shutting_down_started :: bool
  started :: bool
  finished_starting :: bool
  stats_enabled :: bool
  use_compile_time_class_path :: bool

text \<open>
  The declared size of the array \<open>callee_save_methods_\<close> (runtime.h:429): the value of
  the enumerator \<open>kLastCalleeSaveType\<close>.
\<close>

definition callee_save_methods_size :: nat where
  "callee_save_methods_size = CalleeSaveType_index kLastCalleeSaveType"

definition Runtime_ok :: "('w::len) Runtime \<Rightarrow> bool" where
  "Runtime_ok rt = (length (callee_save_methods rt) = callee_save_methods_size)"

section \<open>Fatal checks\<close>

text \<open>
  A failed \<open>CHECK\<close> or \<open>DCHECK\<close> aborts the process; in the model the call returns
  \<open>Inl CheckFailed\<close>. Reading an array outside its bounds, which C++ leaves undefined,
  is \<open>Inl OutOfBounds\<close>.
\<close>

datatype error = CheckFailed | OutOfBounds

text \<open>
  Modelled from the spec: the macros \<open>CHECK\<close> and \<open>DCHECK\<close> come from
  \<open>base/logging.h\<close>, which is not among the sources. The spec calls a failed check a
  precondition violation that aborts the process, and calls \<open>DCHECK\<close> "debug-checked":
  it is a \<open>CHECK\<close> in a debug build and nothing in a release build. Whether the build is
  a debug build is the parameter \<open>debug\<close>.
\<close>

definition CHECK :: "bool \<Rightarrow> error + unit" where
  "CHECK c = (if c then Inr () else Inl CheckFailed)"

definition DCHECK :: "bool \<Rightarrow> bool \<Rightarrow> error + unit" where
  "DCHECK debug c = (if debug then CHECK c else Inr ())"

section \<open>The inline member functions\<close>

subsection \<open>Lifecycle flags and the thread-birth counter\<close>

text \<open>runtime.h:187-189.\<close>

definition IsStarted :: "('w::len) Runtime \<Rightarrow> bool" where
  "IsStarted rt = started rt"

text \<open>runtime.h:165-168.\<close>

definition GetHostPrefix :: "bool \<Rightarrow> ('w::len) Runtime \<Rightarrow> error + string" where
  "GetHostPrefix debug rt =
     (case DCHECK debug (\<not> IsStarted rt) of
        Inl e \<Rightarrow> Inl e
      | Inr _ \<Rightarrow> Inr (host_prefix rt))"

text \<open>runtime.h:173-175.\<close>

definition IsShuttingDown :: "('w::len) Runtime \<Rightarrow> bool" where
  "IsShuttingDown rt = shutting_down rt"

text \<open>runtime.h:177-179.\<close>

definition NumberOfThreadsBeingBorn :: "('w::len) Runtime \<Rightarrow> 'w word" where
  "NumberOfThreadsBeingBorn rt = threads_being_born rt"

text \<open>runtime.h:181-183. The body is the single statement \<open>threads_being_born_++\<close>.\<close>

definition StartThreadBirth :: "('w::len) Runtime \<Rightarrow> 'w Runtime" where
  "StartThreadBirth rt = rt\<lparr>threads_being_born := threads_being_born rt + 1\<rparr>"

subsection \<open>The resolution method\<close>

text \<open>runtime.h:296-298.\<close>

definition HasResolutionMethod :: "('w::len) Runtime \<Rightarrow> bool" where
  "HasResolutionMethod rt = (resolution_method rt \<noteq> NULL)"

text \<open>runtime.h:291-294.\<close>

definition GetResolutionMethod :: "('w::len) Runtime \<Rightarrow> error + ptr" where
  "GetResolutionMethod rt =
     (case CHECK (HasResolutionMethod rt) of
        Inl e \<Rightarrow> Inl e
      | Inr _ \<Rightarrow> Inr (resolution_method rt))"

text \<open>runtime.h:300-302.\<close>

definition SetResolutionMethod :: "ptr \<Rightarrow> ('w::len) Runtime \<Rightarrow> 'w Runtime" where
  "SetResolutionMethod method rt = rt\<lparr>resolution_method := method\<rparr>"

subsection \<open>The callee-save methods\<close>

text \<open>
  The subscript \<open>callee_save_methods_[type]\<close>: the element when the index is inside the
  array, \<open>OutOfBounds\<close> otherwise.
\<close>

definition callee_save_methods_at :: "('w::len) Runtime \<Rightarrow> CalleeSaveType \<Rightarrow> error + ptr" where
  "callee_save_methods_at rt type =
     (if CalleeSaveType_index type < length (callee_save_methods rt)
      then Inr (callee_save_methods rt ! CalleeSaveType_index type)
      else Inl OutOfBounds)"

text \<open>runtime.h:314-316.\<close>

definition HasCalleeSaveMethod :: "('w::len) Runtime \<Rightarrow> CalleeSaveType \<Rightarrow> error + bool" where
  "HasCalleeSaveMethod rt type =
     (case callee_save_methods_at rt type of
        Inl e \<Rightarrow> Inl e
      | Inr m \<Rightarrow> Inr (m \<noteq> NULL))"

text \<open>
  runtime.h:318-321. In a debug build the argument of \<open>DCHECK\<close> is evaluated first, so
  an out-of-bounds subscript shows there; in a release build only the \<open>return\<close>
  statement subscripts the array.
\<close>

definition GetCalleeSaveMethod :: "bool \<Rightarrow> ('w::len) Runtime \<Rightarrow> CalleeSaveType \<Rightarrow> error + ptr" where
  "GetCalleeSaveMethod debug rt type =
     (if debug then
        (case HasCalleeSaveMethod rt type of
           Inl e \<Rightarrow> Inl e
         | Inr has \<Rightarrow>
             (case DCHECK debug has of
                Inl e \<Rightarrow> Inl e
              | Inr _ \<Rightarrow> callee_save_methods_at rt type))
      else callee_save_methods_at rt type)"

section \<open>Member functions the header only declares\<close>

subsection \<open>\<open>EndThreadBirth\<close>\<close>

text \<open>
  Modelled from the spec: \<open>Runtime::EndThreadBirth\<close> is declared at runtime.h:185 and its
  body is not among the sources. The spec (4.1): "\<open>EndThreadBirth\<close>: decrements the counter
  under the shutdown lock; if shutdown is pending and the counter reaches zero, signals the
  waiting shutdown thread." The counter is the \<open>size_t\<close> member \<open>threads_being_born_\<close>;
  "shutdown is pending" is the member \<open>shutting_down_started_\<close> ("the runtime is starting
  to shutdown but is blocked waiting on \<open>shutdown_cond_\<close>", runtime.h:446-447). The second
  component of the result tells whether the condition variable is signalled.
\<close>

definition EndThreadBirth :: "('w::len) Runtime \<Rightarrow> 'w Runtime \<times> bool" where
  "EndThreadBirth rt =
     (let rt' = rt\<lparr>threads_being_born := threads_being_born rt - 1\<rparr>
      in (rt', shutting_down_started rt' \<and> threads_being_born rt' = 0))"

text \<open>
  A sequence of calls of the thread-birth protocol on one runtime, run in order.
\<close>

datatype birth_call = StartCall | EndCall

fun run_births :: "birth_call list \<Rightarrow> ('w::len) Runtime \<Rightarrow> 'w Runtime" where
  "run_births [] rt = rt"
| "run_births (StartCall # cs) rt = run_births cs (StartThreadBirth rt)"
| "run_births (EndCall # cs) rt = run_births cs (fst (EndThreadBirth rt))"

text \<open>
  A sequence is properly paired when every \<open>EndCall\<close> closes an earlier, still open
  \<open>StartCall\<close> and no \<open>StartCall\<close> stays open: \<open>paired_from d\<close> reads the sequence with
  \<open>d\<close> births already open. \<open>births_pending\<close> is the number of starts minus the number of
  ends, as an unbounded integer.
\<close>

fun paired_from :: "nat \<Rightarrow> birth_call list \<Rightarrow> bool" where
  "paired_from d [] = (d = 0)"
| "paired_from d (StartCall # cs) = paired_from (Suc d) cs"
| "paired_from d (EndCall # cs) = (0 < d \<and> paired_from (d - 1) cs)"

definition properly_paired :: "birth_call list \<Rightarrow> bool" where
  "properly_paired cs = paired_from 0 cs"

fun births_pending :: "birth_call list \<Rightarrow> int" where
  "births_pending [] = 0"
| "births_pending (StartCall # cs) = 1 + births_pending cs"
| "births_pending (EndCall # cs) = births_pending cs - 1"

subsection \<open>\<open>CreateCalleeSaveMethod\<close>\<close>

text \<open>
  Modelled from the spec: \<open>Runtime::CreateCalleeSaveMethod\<close> is declared at
  runtime.h:325-327 and its body is not among the sources. The spec (4.3): "Callee-save
  descriptors are indexed by \<open>{SaveAll, RefsOnly, RefsAndArgs}\<close> crossed with target
  instruction set; \<open>CreateCalleeSaveMethod(instructionSet, type)\<close> synthesizes one lazily
  (first use per (type, instructionSet) pair)"; (3): "created lazily on first need per
  instruction set; immutable after construction; owned by MethodRegistry"; (2): the heap
  "receives allocation requests for synthetic objects"; (7): allocation of a descriptor
  can fail.

  The registry of the spec is the table \<open>descriptors\<close>, keyed by (type, instruction set),
  together with the objects the heap has handed out so far. The class \<open>Runtime\<close> of the
  header has no member that is such a table: its only descriptor storage is
  \<open>callee_save_methods_\<close>, keyed by type alone. The table is the spec's, not the header's.

  The heap is a collaborator outside the header: \<open>alloc\<close> is a parameter that, given
  the live objects, returns a new object or fails. The type \<open>InstructionSet\<close> comes from
  \<open>instruction_set.h\<close>, which is not among the sources: it is the type parameter \<open>'isa\<close>.
  A failed allocation returns the null pointer and stores nothing.
\<close>

record 'isa MethodRegistry =
  descriptors :: "((CalleeSaveType \<times> 'isa) \<times> ptr) list"
  allocated :: "ptr list"

definition CreateCalleeSaveMethod ::
  "(ptr list \<Rightarrow> ptr option) \<Rightarrow> 'isa \<Rightarrow> CalleeSaveType \<Rightarrow> 'isa MethodRegistry
     \<Rightarrow> ptr \<times> 'isa MethodRegistry" where
  "CreateCalleeSaveMethod alloc instruction_set type reg =
     (case map_of (descriptors reg) (type, instruction_set) of
        Some method \<Rightarrow> (method, reg)
      | None \<Rightarrow>
          (case alloc (allocated reg) of
             None \<Rightarrow> (NULL, reg)
           | Some method \<Rightarrow>
               (method,
                reg\<lparr>descriptors := ((type, instruction_set), method) # descriptors reg,
                    allocated := method # allocated reg\<rparr>)))"

text \<open>
  What allocation means: a new object is not null and is none of the live objects.
\<close>

definition alloc_fresh :: "(ptr list \<Rightarrow> ptr option) \<Rightarrow> bool" where
  "alloc_fresh alloc = (\<forall>live m. alloc live = Some m \<longrightarrow> m \<noteq> NULL \<and> m \<notin> set live)"

text \<open>
  The invariant of the registry: each key is stored once, no descriptor is stored under
  two keys, no stored descriptor is null, and every stored descriptor is a live object.
\<close>

definition MethodRegistry_ok :: "'isa MethodRegistry \<Rightarrow> bool" where
  "MethodRegistry_ok reg =
     (distinct (map fst (descriptors reg)) \<and> distinct (map snd (descriptors reg)) \<and>
      NULL \<notin> set (map snd (descriptors reg)) \<and>
      set (map snd (descriptors reg)) \<subseteq> set (allocated reg))"

definition MethodRegistry_empty :: "'isa MethodRegistry" where
  "MethodRegistry_empty = \<lparr>descriptors = [], allocated = []\<rparr>"

text \<open>A sample heap: the next object lies just above every live one.\<close>

definition bump_alloc :: "ptr list \<Rightarrow> ptr option" where
  "bump_alloc live = Some (Suc (fold max live 0))"

text \<open>
  A sequence of \<open>CreateCalleeSaveMethod\<close> calls on one registry, run in order: the
  descriptors the calls return, and the registry after the last call.
\<close>

fun run_creates ::
  "(ptr list \<Rightarrow> ptr option) \<Rightarrow> ('isa \<times> CalleeSaveType) list \<Rightarrow> 'isa MethodRegistry
     \<Rightarrow> ptr list \<times> 'isa MethodRegistry" where
  "run_creates alloc [] reg = ([], reg)"
| "run_creates alloc ((instruction_set, type) # calls) reg =
     (case CreateCalleeSaveMethod alloc instruction_set type reg of
        (method, reg') \<Rightarrow>
          (case run_creates alloc calls reg' of
             (methods, reg'') \<Rightarrow> (method # methods, reg'')))"

subsection \<open>\<open>ParsedOptions::Create\<close> and \<open>Runtime::Create\<close>\<close>

text \<open>The type \<open>Runtime::Options\<close> (runtime.h:64): pairs of an option string and a pointer.\<close>

type_synonym Options = "(string \<times> ptr) list"

text \<open>
  Modelled from the spec: \<open>ParsedOptions::Create\<close> is declared at runtime.h:79 and its body
  is not among the sources. Its comment in the header (runtime.h:78): "returns null if
  problem parsing and ignore_unrecognized is false". The spec treats option parsing as an
  external collaborator, so what makes an option a problem (\<open>problem\<close>), what a well-formed
  option does to the parsed options (\<open>apply_option\<close>) and the parsed options before any
  option is read (\<open>defaults\<close>) are parameters. The options are read in order; an option
  with a problem ends the parse with null unless \<open>ignore_unrecognized\<close> is set, in which
  case it is skipped.
\<close>

fun ParsedOptions_parse ::
  "(string \<times> ptr \<Rightarrow> bool) \<Rightarrow> (string \<times> ptr \<Rightarrow> 'po \<Rightarrow> 'po) \<Rightarrow> bool \<Rightarrow> Options \<Rightarrow> 'po
     \<Rightarrow> 'po option" where
  "ParsedOptions_parse problem apply_option ignore_unrecognized [] parsed = Some parsed"
| "ParsedOptions_parse problem apply_option ignore_unrecognized (option # options) parsed =
     (if problem option then
        (if ignore_unrecognized
         then ParsedOptions_parse problem apply_option ignore_unrecognized options parsed
         else None)
      else ParsedOptions_parse problem apply_option ignore_unrecognized options
             (apply_option option parsed))"

definition ParsedOptions_Create ::
  "(string \<times> ptr \<Rightarrow> bool) \<Rightarrow> (string \<times> ptr \<Rightarrow> 'po \<Rightarrow> 'po) \<Rightarrow> 'po \<Rightarrow> Options \<Rightarrow> bool
     \<Rightarrow> 'po option" where
  "ParsedOptions_Create problem apply_option defaults options ignore_unrecognized =
     ParsedOptions_parse problem apply_option ignore_unrecognized options defaults"

text \<open>
  Modelled from the spec: \<open>Runtime::Init\<close> (declared at runtime.h:371) and
  \<open>Runtime::Create\<close> (declared at runtime.h:123) have no body among the sources. The spec
  (2, 4.1): \<open>Create\<close> "constructs the singleton and calls \<open>Init\<close>", which "parses
  configuration, constructs the owned subsystems"; \<open>Create\<close> "fails and returns no instance
  if option parsing fails and \<open>ignoreUnrecognized\<close> is false, or if any owned subsystem
  fails to construct". The subsystems are external: \<open>constructors\<close> holds one constructor
  per owned subsystem, each returning the subsystem's handle or failing, and \<open>assemble\<close>
  builds the runtime from the parsed options and the handles. \<open>Create\<close> returns its
  \<open>bool\<close> result together with the value it leaves in \<open>instance_\<close>.
\<close>

fun construct_subsystems :: "('po \<Rightarrow> ptr option) list \<Rightarrow> 'po \<Rightarrow> ptr list option" where
  "construct_subsystems [] parsed = Some []"
| "construct_subsystems (construct # rest) parsed =
     (case construct parsed of
        None \<Rightarrow> None
      | Some subsystem \<Rightarrow>
          (case construct_subsystems rest parsed of
             None \<Rightarrow> None
           | Some subsystems \<Rightarrow> Some (subsystem # subsystems)))"

definition Runtime_Init ::
  "(string \<times> ptr \<Rightarrow> bool) \<Rightarrow> (string \<times> ptr \<Rightarrow> 'po \<Rightarrow> 'po) \<Rightarrow> 'po \<Rightarrow>
   ('po \<Rightarrow> ptr option) list \<Rightarrow> ('po \<Rightarrow> ptr list \<Rightarrow> 'rt) \<Rightarrow> Options \<Rightarrow> bool \<Rightarrow> 'rt option" where
  "Runtime_Init problem apply_option defaults constructors assemble options
       ignore_unrecognized =
     (case ParsedOptions_Create problem apply_option defaults options ignore_unrecognized of
        None \<Rightarrow> None
      | Some parsed \<Rightarrow>
          (case construct_subsystems constructors parsed of
             None \<Rightarrow> None
           | Some subsystems \<Rightarrow> Some (assemble parsed subsystems)))"

definition Runtime_Create ::
  "(string \<times> ptr \<Rightarrow> bool) \<Rightarrow> (string \<times> ptr \<Rightarrow> 'po \<Rightarrow> 'po) \<Rightarrow> 'po \<Rightarrow>
   ('po \<Rightarrow> ptr option) list \<Rightarrow> ('po \<Rightarrow> ptr list \<Rightarrow> 'rt) \<Rightarrow> Options \<Rightarrow> bool
     \<Rightarrow> bool \<times> 'rt option" where
  "Runtime_Create problem apply_option defaults constructors assemble options
       ignore_unrecognized =
     (case Runtime_Init problem apply_option defaults constructors assemble options
             ignore_unrecognized of
        None \<Rightarrow> (False, None)
      | Some runtime \<Rightarrow> (True, Some runtime))"

text \<open>
  A sample parser: the option \<open>-Xbogus\<close> is a problem, any other option is recorded by
  its name. Two sample subsystem constructors: one that succeeds and one that fails.
\<close>

definition sample_problem :: "string \<times> ptr \<Rightarrow> bool" where
  "sample_problem option = (fst option = ''-Xbogus'')"

definition sample_apply :: "string \<times> ptr \<Rightarrow> string list \<Rightarrow> string list" where
  "sample_apply option parsed = parsed @ [fst option]"

definition construct_heap :: "string list \<Rightarrow> ptr option" where
  "construct_heap parsed = Some 16"

definition construct_failing :: "string list \<Rightarrow> ptr option" where
  "construct_failing parsed = None"

definition sample_assemble :: "string list \<Rightarrow> ptr list \<Rightarrow> string list \<times> ptr list" where
  "sample_assemble parsed subsystems = (parsed, subsystems)"

section \<open>Sample states\<close>

text \<open>
  A runtime as it stands after construction on a 32-bit build: nothing installed, no
  thread being born, not started, not shutting down.
\<close>

definition rt0 :: "32 Runtime" where
  "rt0 = \<lparr> is_compiler = False, is_zygote = False, is_concurrent_gc_enabled = True,
           small_mode = False, small_mode_method_threshold = 0,
           small_mode_method_dex_size_limit = 300, sea_ir_mode = False,
           host_prefix = ''/out/host'', boot_class_path_string = ''/system/framework/core.jar'',
           class_path_string = ''.'', properties = [], default_stack_size = 0,
           heap = 16, monitor_list = 32, thread_list = 48, intern_table = 64,
           class_linker = 80, java_vm = 96, pre_allocated_OutOfMemoryError = NULL,
           callee_save_methods = [NULL, NULL, NULL], resolution_method = NULL,
           threads_being_born = 0, shutting_down = False, shutting_down_started = False,
           started = False, finished_starting = False, stats_enabled = False,
           use_compile_time_class_path = False \<rparr>"

text \<open>The same runtime once shutdown has set its flag.\<close>

definition rt_shutting_down :: "32 Runtime" where
  "rt_shutting_down = rt0\<lparr>shutting_down := True, shutting_down_started := True\<rparr>"

text \<open>The same runtime once \<open>started_\<close> is set.\<close>

definition rt_started :: "32 Runtime" where
  "rt_started = rt0\<lparr>started := True\<rparr>"

text \<open>The same runtime with the \<open>kRefsOnly\<close> slot filled.\<close>

definition rt_refs_only :: "32 Runtime" where
  "rt_refs_only = rt0\<lparr>callee_save_methods := [NULL, 4096, NULL]\<rparr>"

section \<open>The resolution method slot\<close>

text \<open>
  C3. Calling \<open>GetResolutionMethod\<close> while \<open>HasResolutionMethod()\<close> is false fails the
  fatal \<open>CHECK\<close>; when \<open>HasResolutionMethod()\<close> holds, the call does not fail and returns
  the installed descriptor, which is not null.
\<close>

theorem GetResolutionMethod_checked:
  "(\<not> HasResolutionMethod rt \<longrightarrow> GetResolutionMethod rt = Inl CheckFailed) \<and>
   (HasResolutionMethod rt \<longrightarrow>
      GetResolutionMethod rt = Inr (resolution_method rt) \<and> resolution_method rt \<noteq> NULL \<and>
      GetResolutionMethod rt \<noteq> Inl CheckFailed)"
  by (simp add: GetResolutionMethod_def CHECK_def HasResolutionMethod_def)

theorem GetResolutionMethod_checked_witness:
  "\<not> HasResolutionMethod rt0 \<and> GetResolutionMethod rt0 = Inl CheckFailed \<and>
   HasResolutionMethod (rt0\<lparr>resolution_method := 4096\<rparr>) \<and>
   GetResolutionMethod (rt0\<lparr>resolution_method := 4096\<rparr>) = Inr 4096"
  using GetResolutionMethod_checked [of rt0]
    GetResolutionMethod_checked [of "rt0\<lparr>resolution_method := 4096\<rparr>"]
  by (simp add: HasResolutionMethod_def rt0_def NULL_def)

text \<open>
  C8. For every non-null method \<open>m\<close>, \<open>SetResolutionMethod(m)\<close> followed by
  \<open>GetResolutionMethod()\<close> returns exactly \<open>m\<close>; and \<open>HasResolutionMethod()\<close> is true
  exactly when the stored slot is not null.
\<close>

theorem resolution_method_roundtrip:
  "(m \<noteq> NULL \<longrightarrow> GetResolutionMethod (SetResolutionMethod m rt) = Inr m) \<and>
   (HasResolutionMethod rt \<longleftrightarrow> resolution_method rt \<noteq> NULL)"
  by (simp add: GetResolutionMethod_def SetResolutionMethod_def CHECK_def
      HasResolutionMethod_def)

theorem resolution_method_roundtrip_witness:
  "(4096::ptr) \<noteq> NULL \<and> GetResolutionMethod (SetResolutionMethod 4096 rt0) = Inr 4096 \<and>
   \<not> HasResolutionMethod rt0 \<and> HasResolutionMethod (SetResolutionMethod 4096 rt0)"
  using resolution_method_roundtrip [of 4096 rt0]
    resolution_method_roundtrip [of 4096 "SetResolutionMethod 4096 rt0"]
  by (simp add: NULL_def rt0_def SetResolutionMethod_def)

section \<open>The host prefix\<close>

text \<open>
  C9. \<open>GetHostPrefix\<close> carries the debug check \<open>DCHECK(!IsStarted())\<close>: while
  \<open>IsStarted()\<close> is false it returns the stored host-prefix string, in every build; once
  \<open>IsStarted()\<close> is true the call is a precondition violation, which a debug build
  reports by aborting (a release build has no check and returns the string).
\<close>

theorem GetHostPrefix_before_start:
  "(\<not> IsStarted rt \<longrightarrow> GetHostPrefix debug rt = Inr (host_prefix rt)) \<and>
   (IsStarted rt \<longrightarrow>
      GetHostPrefix True rt = Inl CheckFailed \<and> GetHostPrefix False rt = Inr (host_prefix rt))"
  by (simp add: GetHostPrefix_def DCHECK_def CHECK_def)

theorem GetHostPrefix_before_start_witness:
  "\<not> IsStarted rt0 \<and> GetHostPrefix True rt0 = Inr ''/out/host'' \<and>
   IsStarted rt_started \<and> GetHostPrefix True rt_started = Inl CheckFailed"
  using GetHostPrefix_before_start [of rt0 True] GetHostPrefix_before_start [of rt_started True]
  by (simp add: IsStarted_def rt0_def rt_started_def)

section \<open>The callee-save slots\<close>

lemma callee_save_methods_at_Inr:
  "callee_save_methods_at rt t = Inr m \<longleftrightarrow>
   CalleeSaveType_index t < length (callee_save_methods rt) \<and>
   m = callee_save_methods rt ! CalleeSaveType_index t"
  by (auto simp: callee_save_methods_at_def)

lemma HasCalleeSaveMethod_Inr:
  "HasCalleeSaveMethod rt t = Inr b \<longleftrightarrow>
   CalleeSaveType_index t < length (callee_save_methods rt) \<and>
   b = (callee_save_methods rt ! CalleeSaveType_index t \<noteq> NULL)"
  by (auto simp: HasCalleeSaveMethod_def callee_save_methods_at_def)

text \<open>
  C4. \<open>HasCalleeSaveMethod\<close> and \<open>GetCalleeSaveMethod\<close> are \<open>const\<close> member functions:
  each is a function of the runtime that yields a value and no new runtime, so a call
  changes no state. For every type whose slot is empty, \<open>GetCalleeSaveMethod\<close> fails the
  debug check (and a release build, which has no check, returns the null slot); when
  \<open>HasCalleeSaveMethod(type)\<close> holds, it returns the slot's descriptor, which is not null,
  in every build.
\<close>

theorem GetCalleeSaveMethod_checked:
  "(HasCalleeSaveMethod rt t = Inr False \<longrightarrow>
      GetCalleeSaveMethod True rt t = Inl CheckFailed \<and>
      GetCalleeSaveMethod False rt t = Inr NULL) \<and>
   (HasCalleeSaveMethod rt t = Inr True \<longrightarrow>
      GetCalleeSaveMethod debug rt t = Inr (callee_save_methods rt ! CalleeSaveType_index t) \<and>
      callee_save_methods rt ! CalleeSaveType_index t \<noteq> NULL)"
proof (intro conjI impI)
  assume "HasCalleeSaveMethod rt t = Inr False"
  then have h: "HasCalleeSaveMethod rt t = Inr False"
    and i: "CalleeSaveType_index t < length (callee_save_methods rt)"
    and n: "callee_save_methods rt ! CalleeSaveType_index t = NULL"
    by (simp_all add: HasCalleeSaveMethod_Inr)
  show "GetCalleeSaveMethod True rt t = Inl CheckFailed"
    by (simp add: GetCalleeSaveMethod_def h DCHECK_def CHECK_def)
  show "GetCalleeSaveMethod False rt t = Inr NULL"
    using i n by (simp add: GetCalleeSaveMethod_def callee_save_methods_at_def)
next
  assume "HasCalleeSaveMethod rt t = Inr True"
  then have h: "HasCalleeSaveMethod rt t = Inr True"
    and i: "CalleeSaveType_index t < length (callee_save_methods rt)"
    and n: "callee_save_methods rt ! CalleeSaveType_index t \<noteq> NULL"
    by (simp_all add: HasCalleeSaveMethod_Inr)
  show "GetCalleeSaveMethod debug rt t = Inr (callee_save_methods rt ! CalleeSaveType_index t)"
    using i by (simp add: GetCalleeSaveMethod_def h DCHECK_def CHECK_def
        callee_save_methods_at_def)
  show "callee_save_methods rt ! CalleeSaveType_index t \<noteq> NULL"
    by (rule n)
qed

theorem GetCalleeSaveMethod_checked_witness:
  "HasCalleeSaveMethod rt_refs_only kSaveAll = Inr False \<and>
   GetCalleeSaveMethod True rt_refs_only kSaveAll = Inl CheckFailed \<and>
   HasCalleeSaveMethod rt_refs_only kRefsOnly = Inr True \<and>
   GetCalleeSaveMethod True rt_refs_only kRefsOnly = Inr 4096"
proof -
  have a: "HasCalleeSaveMethod rt_refs_only kSaveAll = Inr False"
    by (simp add: HasCalleeSaveMethod_def callee_save_methods_at_def rt_refs_only_def
        rt0_def NULL_def)
  have b: "HasCalleeSaveMethod rt_refs_only kRefsOnly = Inr True"
    by (simp add: HasCalleeSaveMethod_def callee_save_methods_at_def rt_refs_only_def
        rt0_def NULL_def)
  have c: "callee_save_methods rt_refs_only ! CalleeSaveType_index kRefsOnly = 4096"
    by (simp add: rt_refs_only_def rt0_def)
  show ?thesis
    using a b c GetCalleeSaveMethod_checked [of rt_refs_only kSaveAll True]
      GetCalleeSaveMethod_checked [of rt_refs_only kRefsOnly True]
    by simp
qed

text \<open>
  C10. The array \<open>callee_save_methods_\<close> has exactly \<open>kLastCalleeSaveType\<close>, that is
  three, slots. In a runtime whose array has its declared length, the subscript made by
  \<open>HasCalleeSaveMethod\<close> and \<open>GetCalleeSaveMethod\<close> is inside the array for each of
  \<open>kSaveAll\<close>, \<open>kRefsOnly\<close> and \<open>kRefsAndArgs\<close>, and is past its end for
  \<open>kLastCalleeSaveType\<close>, which is therefore not a valid argument.
\<close>

theorem callee_save_methods_bounds:
  "callee_save_methods_size = 3 \<and>
   (Runtime_ok rt \<longrightarrow>
      (\<forall>t \<in> {kSaveAll, kRefsOnly, kRefsAndArgs}.
         CalleeSaveType_index t < length (callee_save_methods rt) \<and>
         HasCalleeSaveMethod rt t \<noteq> Inl OutOfBounds \<and>
         GetCalleeSaveMethod debug rt t \<noteq> Inl OutOfBounds) \<and>
      \<not> CalleeSaveType_index kLastCalleeSaveType < length (callee_save_methods rt) \<and>
      HasCalleeSaveMethod rt kLastCalleeSaveType = Inl OutOfBounds \<and>
      GetCalleeSaveMethod debug rt kLastCalleeSaveType = Inl OutOfBounds)"
  by (simp add: callee_save_methods_size_def Runtime_ok_def HasCalleeSaveMethod_def
      GetCalleeSaveMethod_def callee_save_methods_at_def DCHECK_def CHECK_def)

theorem callee_save_methods_bounds_witness:
  "Runtime_ok rt0 \<and>
   HasCalleeSaveMethod rt0 kSaveAll \<noteq> Inl OutOfBounds \<and>
   HasCalleeSaveMethod rt0 kRefsOnly \<noteq> Inl OutOfBounds \<and>
   HasCalleeSaveMethod rt0 kRefsAndArgs \<noteq> Inl OutOfBounds \<and>
   HasCalleeSaveMethod rt0 kLastCalleeSaveType = Inl OutOfBounds \<and>
   GetCalleeSaveMethod False rt0 kLastCalleeSaveType = Inl OutOfBounds"
proof -
  have ok: "Runtime_ok rt0"
    by (simp add: Runtime_ok_def rt0_def callee_save_methods_size_def)
  show ?thesis
    using ok callee_save_methods_bounds [of rt0 False] by simp
qed

section \<open>The thread-birth counter\<close>

lemma StartThreadBirth_funpow_counter:
  "threads_being_born ((StartThreadBirth ^^ n) rt) = threads_being_born rt + of_nat n"
  by (induction n) (simp_all add: StartThreadBirth_def)

lemma StartThreadBirth_funpow_flag:
  "shutting_down ((StartThreadBirth ^^ n) rt) = shutting_down rt"
  by (induction n) (simp_all add: StartThreadBirth_def)

text \<open>
  C1, as the code has it. \<open>StartThreadBirth\<close> does not read the shutdown flag and has no
  failure path: whether or not the flag is set, a call increments the thread-birth
  counter by exactly one (modulo the range of \<open>size_t\<close>) and leaves the flag as it was;
  after \<open>n\<close> calls the counter is the initial value plus \<open>n\<close>.
\<close>

theorem StartThreadBirth_increments:
  "NumberOfThreadsBeingBorn (StartThreadBirth rt) = NumberOfThreadsBeingBorn rt + 1 \<and>
   unat (NumberOfThreadsBeingBorn (StartThreadBirth rt))
     = (unat (NumberOfThreadsBeingBorn rt) + 1) mod 2 ^ LENGTH('w) \<and>
   IsShuttingDown (StartThreadBirth rt) = IsShuttingDown rt \<and>
   NumberOfThreadsBeingBorn ((StartThreadBirth ^^ n) rt)
     = NumberOfThreadsBeingBorn rt + of_nat n \<and>
   IsShuttingDown ((StartThreadBirth ^^ n) rt) = IsShuttingDown rt"
  for rt :: "('w::len) Runtime"
proof -
  have "NumberOfThreadsBeingBorn (StartThreadBirth rt) = NumberOfThreadsBeingBorn rt + 1"
    by (simp add: NumberOfThreadsBeingBorn_def StartThreadBirth_def)
  moreover from this
  have "unat (NumberOfThreadsBeingBorn (StartThreadBirth rt))
     = (unat (NumberOfThreadsBeingBorn rt) + 1) mod 2 ^ LENGTH('w)"
    by (simp add: unat_word_ariths)
  moreover have "IsShuttingDown (StartThreadBirth rt) = IsShuttingDown rt"
    by (simp add: IsShuttingDown_def StartThreadBirth_def)
  moreover have "NumberOfThreadsBeingBorn ((StartThreadBirth ^^ n) rt)
     = NumberOfThreadsBeingBorn rt + of_nat n"
    by (simp add: NumberOfThreadsBeingBorn_def StartThreadBirth_funpow_counter)
  moreover have "IsShuttingDown ((StartThreadBirth ^^ n) rt) = IsShuttingDown rt"
    by (simp add: IsShuttingDown_def StartThreadBirth_funpow_flag)
  ultimately show ?thesis by simp
qed

text \<open>
  C1 as stated fails: in a runtime whose shutdown flag is set and whose counter is zero,
  \<open>StartThreadBirth\<close> returns normally and the counter is one afterwards.
\<close>

theorem StartThreadBirth_shutdown_counterexample:
  "IsShuttingDown rt_shutting_down \<and>
   NumberOfThreadsBeingBorn rt_shutting_down = 0 \<and>
   NumberOfThreadsBeingBorn (StartThreadBirth rt_shutting_down) = 1 \<and>
   NumberOfThreadsBeingBorn (StartThreadBirth rt_shutting_down)
     \<noteq> NumberOfThreadsBeingBorn rt_shutting_down"
  by (simp add: IsShuttingDown_def NumberOfThreadsBeingBorn_def StartThreadBirth_def
      rt_shutting_down_def rt0_def)

lemma run_births_counter:
  "threads_being_born (run_births cs rt)
     = threads_being_born rt + word_of_int (births_pending cs)"
proof (induction cs rt rule: run_births.induct)
  case (1 rt)
  then show ?case by simp
next
  case (2 cs rt)
  then show ?case by (simp add: StartThreadBirth_def)
next
  case (3 cs rt)
  then show ?case by (simp add: EndThreadBirth_def Let_def)
qed

lemma paired_from_prefix:
  "paired_from d cs \<Longrightarrow> 0 \<le> int d + births_pending (take k cs)"
proof (induction d cs arbitrary: k rule: paired_from.induct)
  case (1 d)
  then show ?case by simp
next
  case (2 d cs)
  show ?case
  proof (cases k)
    case 0
    then show ?thesis by simp
  next
    case (Suc j)
    from 2 have "0 \<le> int (Suc d) + births_pending (take j cs)" by simp
    then show ?thesis using Suc by simp
  qed
next
  case (3 d cs)
  show ?case
  proof (cases k)
    case 0
    then show ?thesis by simp
  next
    case (Suc j)
    from 3 have "0 \<le> int (d - 1) + births_pending (take j cs)" by simp
    moreover from 3 have "0 < d" by simp
    ultimately show ?thesis using Suc by simp
  qed
qed

lemma paired_from_total:
  "paired_from d cs \<Longrightarrow> int d + births_pending cs = 0"
proof (induction d cs rule: paired_from.induct)
  case (1 d)
  then show ?case by simp
next
  case (2 d cs)
  then show ?case by simp
next
  case (3 d cs)
  then have "int (d - 1) + births_pending cs = 0" and "0 < d" by simp_all
  then show ?case by simp
qed

lemma births_pending_le: "births_pending cs \<le> int (length cs)"
  by (induction cs rule: births_pending.induct) simp_all

text \<open>
  C5. For every properly paired sequence of \<open>StartThreadBirth\<close>/\<open>EndThreadBirth\<close> calls
  run from counter zero, \<open>NumberOfThreadsBeingBorn()\<close> is zero after the whole sequence,
  and after every prefix the number of starts minus the number of ends is not negative
  and is what the counter holds: modulo the range of \<open>size_t\<close> always, and exactly when
  the sequence is shorter than that range, so no \<open>EndThreadBirth\<close> wraps the counter
  below zero.
\<close>

theorem thread_birth_pairs:
  fixes rt :: "('w::len) Runtime"
  assumes p: "properly_paired cs" and z: "NumberOfThreadsBeingBorn rt = 0"
  shows "NumberOfThreadsBeingBorn (run_births cs rt) = 0 \<and>
     (\<forall>k \<le> length cs.
        0 \<le> births_pending (take k cs) \<and>
        NumberOfThreadsBeingBorn (run_births (take k cs) rt)
          = word_of_int (births_pending (take k cs)) \<and>
        (length cs < 2 ^ LENGTH('w) \<longrightarrow>
           uint (NumberOfThreadsBeingBorn (run_births (take k cs) rt))
             = births_pending (take k cs)))"
proof -
  have tot: "births_pending cs = 0"
    using paired_from_total [of 0 cs] p by (simp add: properly_paired_def)
  have fin: "NumberOfThreadsBeingBorn (run_births cs rt) = 0"
    using z by (simp add: NumberOfThreadsBeingBorn_def run_births_counter tot)
  have pre: "0 \<le> births_pending (take k cs)" for k
    using paired_from_prefix [of 0 cs k] p by (simp add: properly_paired_def)
  have cnt: "NumberOfThreadsBeingBorn (run_births (take k cs) rt)
          = word_of_int (births_pending (take k cs))" for k
    using z by (simp add: NumberOfThreadsBeingBorn_def run_births_counter)
  have nowrap: "uint (NumberOfThreadsBeingBorn (run_births (take k cs) rt))
             = births_pending (take k cs)" if "length cs < 2 ^ LENGTH('w)" for k
  proof -
    have "births_pending (take k cs) \<le> int (length (take k cs))"
      by (rule births_pending_le)
    also have "\<dots> \<le> int (length cs)" by simp
    also have "\<dots> < 2 ^ LENGTH('w)" using that by (simp flip: of_nat_less_iff)
    finally have "births_pending (take k cs) < 2 ^ LENGTH('w)" .
    with pre [of k] show ?thesis
      by (simp add: cnt uint_word_of_int)
  qed
  show ?thesis
    using fin pre cnt nowrap by blast
qed

theorem thread_birth_pairs_witness:
  "properly_paired [StartCall, StartCall, EndCall, StartCall, EndCall, EndCall] \<and>
   NumberOfThreadsBeingBorn rt0 = 0 \<and>
   NumberOfThreadsBeingBorn
     (run_births [StartCall, StartCall, EndCall, StartCall, EndCall, EndCall] rt0) = 0 \<and>
   uint (NumberOfThreadsBeingBorn (run_births [StartCall, StartCall] rt0)) = 2"
proof -
  let ?cs = "[StartCall, StartCall, EndCall, StartCall, EndCall, EndCall]"
  have p: "properly_paired ?cs"
    by (simp add: properly_paired_def)
  have z: "NumberOfThreadsBeingBorn rt0 = 0"
    by (simp add: NumberOfThreadsBeingBorn_def rt0_def)
  note t = thread_birth_pairs [OF p z]
  from t have fin: "NumberOfThreadsBeingBorn (run_births ?cs rt0) = 0"
    by (rule conjunct1)
  from t have "\<forall>k \<le> length ?cs.
        0 \<le> births_pending (take k ?cs) \<and>
        NumberOfThreadsBeingBorn (run_births (take k ?cs) rt0)
          = word_of_int (births_pending (take k ?cs)) \<and>
        (length ?cs < 2 ^ LENGTH(32) \<longrightarrow>
           uint (NumberOfThreadsBeingBorn (run_births (take k ?cs) rt0))
             = births_pending (take k ?cs))"
    by (rule conjunct2)
  then have "2 \<le> length ?cs \<longrightarrow>
        0 \<le> births_pending (take 2 ?cs) \<and>
        NumberOfThreadsBeingBorn (run_births (take 2 ?cs) rt0)
          = word_of_int (births_pending (take 2 ?cs)) \<and>
        (length ?cs < 2 ^ LENGTH(32) \<longrightarrow>
           uint (NumberOfThreadsBeingBorn (run_births (take 2 ?cs) rt0))
             = births_pending (take 2 ?cs))"
    by (rule spec)
  then have "uint (NumberOfThreadsBeingBorn (run_births [StartCall, StartCall] rt0)) = 2"
    by simp
  with p z fin show ?thesis by simp
qed

section \<open>Lazily created callee-save descriptors\<close>

lemma fold_max_mono: "a \<le> fold max xs (a::nat)"
proof (induction xs arbitrary: a)
  case Nil
  show ?case by simp
next
  case (Cons x xs)
  have "a \<le> max x a" by simp
  also have "\<dots> \<le> fold max xs (max x a)" by (rule Cons.IH)
  finally show ?case by simp
qed

lemma fold_max_ge: "m \<in> set live \<Longrightarrow> m \<le> fold max live (a::nat)"
proof (induction live arbitrary: a)
  case Nil
  then show ?case by simp
next
  case (Cons x xs)
  show ?case
  proof (cases "m = x")
    case True
    have "x \<le> max x a" by simp
    also have "\<dots> \<le> fold max xs (max x a)" by (rule fold_max_mono)
    finally show ?thesis using True by simp
  next
    case False
    with Cons.prems have "m \<in> set xs" by simp
    then show ?thesis using Cons.IH by simp
  qed
qed

lemma bump_alloc_fresh: "alloc_fresh bump_alloc"
proof -
  have "Suc (fold max live 0) \<notin> set live" for live
    using fold_max_ge [of "Suc (fold max live 0)" live 0] by auto
  then show ?thesis
    by (auto simp: alloc_fresh_def bump_alloc_def NULL_def)
qed

lemma MethodRegistry_empty_ok: "MethodRegistry_ok MethodRegistry_empty"
  by (simp add: MethodRegistry_ok_def MethodRegistry_empty_def)

lemma CreateCalleeSaveMethod_cases:
  assumes "CreateCalleeSaveMethod alloc isa t reg = (m, reg')"
  obtains (hit) "map_of (descriptors reg) (t, isa) = Some m" "reg' = reg"
  | (fail) "map_of (descriptors reg) (t, isa) = None" "alloc (allocated reg) = None"
      "m = NULL" "reg' = reg"
  | (miss) "map_of (descriptors reg) (t, isa) = None" "alloc (allocated reg) = Some m"
      "reg' = reg\<lparr>descriptors := ((t, isa), m) # descriptors reg,
                   allocated := m # allocated reg\<rparr>"
  using assms unfolding CreateCalleeSaveMethod_def
  by (cases "map_of (descriptors reg) (t, isa)"; cases "alloc (allocated reg)") auto

lemma CreateCalleeSaveMethod_ok:
  assumes fresh: "alloc_fresh alloc" and ok: "MethodRegistry_ok reg"
    and call: "CreateCalleeSaveMethod alloc isa t reg = (m, reg')"
  shows "MethodRegistry_ok reg'"
  using call
proof (cases rule: CreateCalleeSaveMethod_cases)
  case hit
  with ok show ?thesis by simp
next
  case fail
  with ok show ?thesis by simp
next
  case miss
  from fresh miss(2) have m: "m \<noteq> NULL" "m \<notin> set (allocated reg)"
    by (auto simp: alloc_fresh_def)
  from miss(1) have k: "(t, isa) \<notin> fst ` set (descriptors reg)"
    by (simp add: map_of_eq_None_iff)
  from ok m(2) have "m \<notin> snd ` set (descriptors reg)"
    by (auto simp: MethodRegistry_ok_def)
  with ok m k show ?thesis
    unfolding miss(3) MethodRegistry_ok_def by auto
qed

lemma CreateCalleeSaveMethod_stored:
  assumes call: "CreateCalleeSaveMethod alloc isa t reg = (m, reg')" and m: "m \<noteq> NULL"
  shows "map_of (descriptors reg') (t, isa) = Some m"
  using call
proof (cases rule: CreateCalleeSaveMethod_cases)
  case hit
  then show ?thesis by simp
next
  case fail
  with m show ?thesis by simp
next
  case miss
  then show ?thesis by simp
qed

lemma MethodRegistry_ok_inj:
  assumes ok: "MethodRegistry_ok reg"
    and a: "map_of (descriptors reg) k = Some m"
    and b: "map_of (descriptors reg) k' = Some m"
  shows "k = k'"
proof -
  from a b have "(k, m) \<in> set (descriptors reg)" "(k', m) \<in> set (descriptors reg)"
    by (auto dest: map_of_SomeD)
  moreover from ok have "distinct (map snd (descriptors reg))"
    by (simp add: MethodRegistry_ok_def)
  ultimately show ?thesis
    by (metis distinct_map inj_on_def fst_conv snd_conv)
qed

lemma MethodRegistry_ok_live:
  assumes ok: "MethodRegistry_ok reg" and a: "map_of (descriptors reg) k = Some m"
  shows "m \<in> set (allocated reg)"
proof -
  from a have "(k, m) \<in> set (descriptors reg)" by (rule map_of_SomeD)
  then have "m \<in> set (map snd (descriptors reg))" by force
  with ok show ?thesis by (auto simp: MethodRegistry_ok_def)
qed

lemma CreateCalleeSaveMethod_keeps:
  assumes stored: "map_of (descriptors reg) k = Some m"
    and call: "CreateCalleeSaveMethod alloc isa t reg = (m', reg')"
  shows "map_of (descriptors reg') k = Some m"
  using call
proof (cases rule: CreateCalleeSaveMethod_cases)
  case hit
  with stored show ?thesis by simp
next
  case fail
  with stored show ?thesis by simp
next
  case miss
  from miss(1) stored have "k \<noteq> (t, isa)" by auto
  with stored show ?thesis unfolding miss(3) by simp
qed

lemma run_creates_keeps:
  "map_of (descriptors reg) k = Some m \<Longrightarrow>
   map_of (descriptors (snd (run_creates alloc calls reg))) k = Some m"
proof (induction calls arbitrary: reg)
  case Nil
  then show ?case by simp
next
  case (Cons c calls)
  obtain isa t where c: "c = (isa, t)" by (cases c)
  obtain m' reg' where call: "CreateCalleeSaveMethod alloc isa t reg = (m', reg')"
    by (cases "CreateCalleeSaveMethod alloc isa t reg")
  from Cons.prems call have "map_of (descriptors reg') k = Some m"
    by (rule CreateCalleeSaveMethod_keeps)
  then have "map_of (descriptors (snd (run_creates alloc calls reg'))) k = Some m"
    by (rule Cons.IH)
  then show ?case
    by (cases "run_creates alloc calls reg'") (simp add: c call)
qed

lemma run_creates_ok:
  "alloc_fresh alloc \<Longrightarrow> MethodRegistry_ok reg \<Longrightarrow>
   MethodRegistry_ok (snd (run_creates alloc calls reg))"
proof (induction calls arbitrary: reg)
  case Nil
  then show ?case by simp
next
  case (Cons c calls)
  obtain isa t where c: "c = (isa, t)" by (cases c)
  obtain m' reg' where call: "CreateCalleeSaveMethod alloc isa t reg = (m', reg')"
    by (cases "CreateCalleeSaveMethod alloc isa t reg")
  from Cons.prems call have "MethodRegistry_ok reg'"
    by (rule CreateCalleeSaveMethod_ok)
  with Cons.prems(1) have "MethodRegistry_ok (snd (run_creates alloc calls reg'))"
    by (rule Cons.IH)
  then show ?case
    by (cases "run_creates alloc calls reg'") (simp add: c call)
qed

lemma CreateCalleeSaveMethod_other_isa:
  assumes fresh: "alloc_fresh alloc" and ok: "MethodRegistry_ok reg"
    and stored: "map_of (descriptors reg) (t, isa) = Some m" and ne: "isa' \<noteq> isa"
  shows "fst (CreateCalleeSaveMethod alloc isa' t' reg) \<noteq> m"
proof -
  obtain m' reg' where second: "CreateCalleeSaveMethod alloc isa' t' reg = (m', reg')"
    by (cases "CreateCalleeSaveMethod alloc isa' t' reg")
  from stored have "((t, isa), m) \<in> set (descriptors reg)" by (rule map_of_SomeD)
  then have "m \<in> set (map snd (descriptors reg))" by force
  moreover from ok have "NULL \<notin> set (map snd (descriptors reg))"
    by (simp add: MethodRegistry_ok_def)
  ultimately have m: "m \<noteq> NULL" by metis
  from second have "m' \<noteq> m"
  proof (cases rule: CreateCalleeSaveMethod_cases)
    case hit
    show ?thesis
    proof
      assume "m' = m"
      with hit(1) have "map_of (descriptors reg) (t', isa') = Some m" by simp
      with ok stored have "(t, isa) = (t', isa')" by (rule MethodRegistry_ok_inj)
      with ne show False by simp
    qed
  next
    case fail
    with m show ?thesis by simp
  next
    case miss
    from fresh miss(2) have "m' \<notin> set (allocated reg)"
      by (auto simp: alloc_fresh_def)
    moreover from ok stored have "m \<in> set (allocated reg)"
      by (rule MethodRegistry_ok_live)
    ultimately show ?thesis by auto
  qed
  with second show ?thesis by simp
qed

text \<open>
  C6. In the registry of the spec, with a heap that hands out new objects: once
  \<open>CreateCalleeSaveMethod\<close> has returned a descriptor for a (type, instruction set)
  pair, then after any further sequence of \<open>CreateCalleeSaveMethod\<close> calls, with
  whatever arguments, a call with the same pair returns that same descriptor and
  changes nothing (nothing is allocated, nothing is stored: synthesis happened on the
  first use of the pair only), and a call with a different instruction set, for any
  type, returns a descriptor other than that one.
\<close>

theorem CreateCalleeSaveMethod_idempotent:
  assumes fresh: "alloc_fresh alloc" and ok: "MethodRegistry_ok reg"
    and first: "CreateCalleeSaveMethod alloc isa t reg = (m, reg')" and m: "m \<noteq> NULL"
  shows "CreateCalleeSaveMethod alloc isa t (snd (run_creates alloc calls reg'))
           = (m, snd (run_creates alloc calls reg')) \<and>
         (\<forall>isa' t'. isa' \<noteq> isa \<longrightarrow>
            fst (CreateCalleeSaveMethod alloc isa' t' (snd (run_creates alloc calls reg')))
              \<noteq> m)"
proof (intro conjI allI impI)
  have "map_of (descriptors reg') (t, isa) = Some m"
    using first m by (rule CreateCalleeSaveMethod_stored)
  then have stored:
    "map_of (descriptors (snd (run_creates alloc calls reg'))) (t, isa) = Some m"
    by (rule run_creates_keeps)
  then show "CreateCalleeSaveMethod alloc isa t (snd (run_creates alloc calls reg'))
           = (m, snd (run_creates alloc calls reg'))"
    by (simp add: CreateCalleeSaveMethod_def)
  have "MethodRegistry_ok reg'"
    using fresh ok first by (rule CreateCalleeSaveMethod_ok)
  with fresh have ok': "MethodRegistry_ok (snd (run_creates alloc calls reg'))"
    by (rule run_creates_ok)
  fix isa' t'
  assume "isa' \<noteq> isa"
  with fresh ok' stored
  show "fst (CreateCalleeSaveMethod alloc isa' t' (snd (run_creates alloc calls reg'))) \<noteq> m"
    by (rule CreateCalleeSaveMethod_other_isa)
qed

theorem CreateCalleeSaveMethod_idempotent_witness:
  "fst (run_creates bump_alloc
          [(1::nat, kRefsOnly), (2, kRefsOnly), (2, kSaveAll), (1, kRefsOnly)]
          MethodRegistry_empty) = [1, 2, 3, 1] \<and>
   CreateCalleeSaveMethod bump_alloc (1::nat) kRefsOnly MethodRegistry_empty
     = (1, \<lparr>descriptors = [((kRefsOnly, 1), 1)], allocated = [1]\<rparr>) \<and>
   CreateCalleeSaveMethod bump_alloc (1::nat) kRefsOnly
       \<lparr>descriptors = [((kSaveAll, 2), 3), ((kRefsOnly, 2), 2), ((kRefsOnly, 1), 1)],
        allocated = [3, 2, 1]\<rparr>
     = (1, \<lparr>descriptors = [((kSaveAll, 2), 3), ((kRefsOnly, 2), 2), ((kRefsOnly, 1), 1)],
            allocated = [3, 2, 1]\<rparr>) \<and>
   fst (CreateCalleeSaveMethod bump_alloc (2::nat) kRefsAndArgs
       \<lparr>descriptors = [((kSaveAll, 2), 3), ((kRefsOnly, 2), 2), ((kRefsOnly, 1), 1)],
        allocated = [3, 2, 1]\<rparr>) \<noteq> 1"
proof -
  let ?reg' = "\<lparr>descriptors = [((kRefsOnly, 1::nat), 1::ptr)], allocated = [1::ptr]\<rparr>"
  let ?reg'' = "\<lparr>descriptors = [((kSaveAll, 2::nat), 3::ptr), ((kRefsOnly, 2), 2),
                  ((kRefsOnly, 1), 1)], allocated = [3::ptr, 2, 1]\<rparr>"
  have first: "CreateCalleeSaveMethod bump_alloc (1::nat) kRefsOnly MethodRegistry_empty
     = (1, ?reg')"
    by (simp add: CreateCalleeSaveMethod_def MethodRegistry_empty_def bump_alloc_def)
  have m: "(1::ptr) \<noteq> NULL"
    by (simp add: NULL_def)
  have between: "run_creates bump_alloc [(2::nat, kRefsOnly), (2, kSaveAll)] ?reg'
     = ([2, 3], ?reg'')"
    by (simp add: CreateCalleeSaveMethod_def bump_alloc_def)
  have whole: "fst (run_creates bump_alloc
          [(1::nat, kRefsOnly), (2, kRefsOnly), (2, kSaveAll), (1, kRefsOnly)]
          MethodRegistry_empty) = [1, 2, 3, 1]"
    by (simp add: CreateCalleeSaveMethod_def MethodRegistry_empty_def bump_alloc_def)
  note t = CreateCalleeSaveMethod_idempotent
    [OF bump_alloc_fresh MethodRegistry_empty_ok first m,
      of "[(2::nat, kRefsOnly), (2, kSaveAll)]"]
  from t have again: "CreateCalleeSaveMethod bump_alloc (1::nat) kRefsOnly ?reg''
     = (1, ?reg'')"
    unfolding between by simp
  from t have "\<forall>isa' t'. isa' \<noteq> (1::nat) \<longrightarrow>
      fst (CreateCalleeSaveMethod bump_alloc isa' t' ?reg'') \<noteq> 1"
    unfolding between by simp
  then have "fst (CreateCalleeSaveMethod bump_alloc (2::nat) kRefsAndArgs ?reg'') \<noteq> 1"
    by simp
  with whole first again show ?thesis by simp
qed

section \<open>Creating the runtime\<close>

lemma ParsedOptions_parse_problem:
  "x \<in> set options \<Longrightarrow> problem x \<Longrightarrow>
   ParsedOptions_parse problem apply_option False options parsed = None"
  by (induction options arbitrary: parsed) auto

lemma construct_subsystems_fails:
  "c \<in> set constructors \<Longrightarrow> c parsed = None \<Longrightarrow>
   construct_subsystems constructors parsed = None"
  by (induction constructors) (auto split: option.splits)

text \<open>
  C7. \<open>Create(options, ignoreUnrecognized)\<close> fails and leaves no runtime instance when
  some option has a parsing problem and \<open>ignoreUnrecognized\<close> is false, in which case
  the option parser \<open>ParsedOptions::Create\<close> itself returns null; and it fails and leaves
  no instance when the options were parsed and any owned subsystem fails to construct.
\<close>

theorem Runtime_Create_fails:
  "((\<exists>x \<in> set options. problem x) \<and> \<not> ignore_unrecognized \<longrightarrow>
      ParsedOptions_Create problem apply_option defaults options ignore_unrecognized = None \<and>
      Runtime_Create problem apply_option defaults constructors assemble options
        ignore_unrecognized = (False, None)) \<and>
   (\<forall>parsed.
      ParsedOptions_Create problem apply_option defaults options ignore_unrecognized
        = Some parsed \<and> (\<exists>c \<in> set constructors. c parsed = None) \<longrightarrow>
      Runtime_Create problem apply_option defaults constructors assemble options
        ignore_unrecognized = (False, None))"
proof (intro conjI impI allI)
  assume a: "(\<exists>x \<in> set options. problem x) \<and> \<not> ignore_unrecognized"
  then show p: "ParsedOptions_Create problem apply_option defaults options
      ignore_unrecognized = None"
    by (auto simp: ParsedOptions_Create_def ParsedOptions_parse_problem)
  then show "Runtime_Create problem apply_option defaults constructors assemble options
        ignore_unrecognized = (False, None)"
    by (simp add: Runtime_Create_def Runtime_Init_def)
next
  fix parsed
  assume "ParsedOptions_Create problem apply_option defaults options ignore_unrecognized
        = Some parsed \<and> (\<exists>c \<in> set constructors. c parsed = None)"
  then show "Runtime_Create problem apply_option defaults constructors assemble options
        ignore_unrecognized = (False, None)"
    by (auto simp: Runtime_Create_def Runtime_Init_def construct_subsystems_fails)
qed

theorem Runtime_Create_fails_witness:
  "ParsedOptions_Create sample_problem sample_apply []
     [(''-Xcheck:jni'', NULL), (''-Xbogus'', NULL)] False = None \<and>
   Runtime_Create sample_problem sample_apply [] [construct_heap] sample_assemble
     [(''-Xcheck:jni'', NULL), (''-Xbogus'', NULL)] False = (False, None) \<and>
   ParsedOptions_Create sample_problem sample_apply []
     [(''-Xcheck:jni'', NULL)] False = Some [''-Xcheck:jni''] \<and>
   Runtime_Create sample_problem sample_apply [] [construct_heap, construct_failing]
     sample_assemble [(''-Xcheck:jni'', NULL)] False = (False, None) \<and>
   Runtime_Create sample_problem sample_apply [] [construct_heap] sample_assemble
     [(''-Xcheck:jni'', NULL)] False = (True, Some ([''-Xcheck:jni''], [16]))"
proof -
  have bad: "sample_problem (''-Xbogus'', NULL)"
    by (simp add: sample_problem_def)
  have good: "ParsedOptions_Create sample_problem sample_apply []
     [(''-Xcheck:jni'', NULL)] False = Some [''-Xcheck:jni'']"
    by (simp add: ParsedOptions_Create_def sample_problem_def sample_apply_def)
  have failing: "construct_failing [''-Xcheck:jni''] = None"
    by (simp add: construct_failing_def)
  have run: "Runtime_Create sample_problem sample_apply [] [construct_heap] sample_assemble
     [(''-Xcheck:jni'', NULL)] False = (True, Some ([''-Xcheck:jni''], [16]))"
    by (simp add: Runtime_Create_def Runtime_Init_def good construct_heap_def
        sample_assemble_def)
  show ?thesis
    using bad good failing run
      Runtime_Create_fails [of "[(''-Xcheck:jni'', NULL), (''-Xbogus'', NULL)]"
        sample_problem False sample_apply "[]" "[construct_heap]" sample_assemble]
      Runtime_Create_fails [of "[(''-Xcheck:jni'', NULL)]"
        sample_problem False sample_apply "[]" "[construct_heap, construct_failing]"
        sample_assemble]
    by simp
qed

end
